theory Spec2Isabelle
  imports Main
begin

section \<open>The MT5 login worker: \<^verbatim>\<open>src/worker/main.py\<close>\<close>

text \<open>
  The worker is one FastAPI handler, \<^verbatim>\<open>mt5_login(req, x_api_key)\<close>. It compares the
  \<^verbatim>\<open>x-api-key\<close> header with the module constant \<^verbatim>\<open>API_KEY\<close>, imports the
  \<^verbatim>\<open>MetaTrader5\<close> package, initialises the terminal, logs in, reads the account
  record and shuts the terminal down in a \<^verbatim>\<open>finally\<close> block.

  The embedding makes the handler's effects explicit. The handler returns a pair: the
  list of calls it made on the package, in order, and the way it ended (an
  \<^verbatim>\<open>HTTPException\<close>, a returned dictionary, or an exception that nobody catches).
\<close>

subsection \<open>Python values\<close>

text \<open>
  An exception instance caught by \<^verbatim>\<open>except Exception\<close>: its class name and its
  \<^verbatim>\<open>str()\<close>, the text an f-string prints for it.
\<close>

datatype exn = Exn (exn_type: string) (exn_str: string)

text \<open>A call either returns a value or raises.\<close>

datatype 'a outcome = Returns 'a | Raises exn

text \<open>
  The account record is a named tuple: its fields in order, each with its value. The
  values are whatever the terminal reports (numbers, text); the handler never looks at
  them, so their type is a parameter \<open>'v\<close>.
\<close>

type_synonym 'v namedtuple = "(string \<times> 'v) list"

text \<open>
  The values that occur in the dictionaries the handler returns: \<^verbatim>\<open>True\<close>/\<^verbatim>\<open>False\<close>,
  a message, and the dictionary of account fields. A dictionary is a map from keys to
  values.
\<close>

datatype 'v pyval = PyBool bool | PyStr string | PyDict "string \<Rightarrow> 'v option"

type_synonym 'v body = "string \<Rightarrow> 'v pyval option"

text \<open>\<^verbatim>\<open>class LoginReq(BaseModel)\<close>: three required strings.\<close>

record LoginReq =
  server :: string
  login :: string
  password :: string

subsection \<open>The terminal package\<close>

text \<open>
  Modelled from the spec: the \<^verbatim>\<open>MetaTrader5\<close> package is not part of the repository;
  the handler uses it through four calls,
  \<^verbatim>\<open>initialize() -> bool\<close>, \<^verbatim>\<open>login(id, password, server) -> bool\<close>,
  \<^verbatim>\<open>account_info() -> optional record\<close> and \<^verbatim>\<open>shutdown() -> void\<close>.
  The package is a parameter of the handler: a record that says what each call whose
  result the handler reads does in the request at hand (it returns a value or raises).
  Each of these calls is made at most once in a request, so one outcome per call (for
  \<^verbatim>\<open>login\<close>, per argument triple) describes the package completely.
  \<^verbatim>\<open>shutdown()\<close> returns nothing and the interface gives it no failure; it appears
  as an entry of the call list only. The field \<open>login_mt5\<close> is the package's
  \<^verbatim>\<open>login\<close> (the name \<open>login\<close> is the request's field).
\<close>

record 'v MetaTrader5 =
  initialize :: "bool outcome"
  login_mt5 :: "int \<Rightarrow> string \<Rightarrow> string \<Rightarrow> bool outcome"
  account_info :: "'v namedtuple option outcome"

text \<open>The calls the handler makes on the package, as they appear in its trace.\<close>

datatype call =
    Import_MetaTrader5
  | Initialize
  | Login int string string
  | Account_info
  | Shutdown

text \<open>
  How the handler ends: \<^verbatim>\<open>raise HTTPException(status_code, detail)\<close>, which FastAPI
  answers with that status; \<^verbatim>\<open>return {...}\<close>, answered with status 200 and the
  dictionary as body; or an exception that leaves the handler uncaught (a server error).
\<close>

datatype 'v result =
    HTTPException nat string
  | Return "'v body"
  | Uncaught exn

subsection \<open>Configuration and header\<close>

text \<open>\<^verbatim>\<open>os.getenv(name, default)\<close> on the process environment.\<close>

definition getenv :: "(string \<Rightarrow> string option) \<Rightarrow> string \<Rightarrow> string \<Rightarrow> string" where
  "getenv environ name dflt = (case environ name of None \<Rightarrow> dflt | Some v \<Rightarrow> v)"

text \<open>\<^verbatim>\<open>API_KEY = os.getenv("MT5_WORKER_API_KEY", "change-me")\<close>\<close>

definition API_KEY :: "(string \<Rightarrow> string option) \<Rightarrow> string" where
  "API_KEY environ = getenv environ ''MT5_WORKER_API_KEY'' ''change-me''"

text \<open>
  \<^verbatim>\<open>x_api_key: str = Header(default="")\<close>: the header's value, or the default when
  the request carries no such header.
\<close>

definition Header :: "string \<Rightarrow> string option \<Rightarrow> string" where
  "Header dflt h = (case h of None \<Rightarrow> dflt | Some v \<Rightarrow> v)"

subsection \<open>\<^verbatim>\<open>int(req.login)\<close>\<close>

text \<open>
  \<^verbatim>\<open>int\<close> is Python's built-in conversion, not code of the repository. Like the
  package it is a parameter of the handler, \<open>py_int\<close>: a function that, for a text,
  either returns an integer or raises (a \<^verbatim>\<open>ValueError\<close> with the interpreter's
  message). The handler applies it to the request's \<^verbatim>\<open>login\<close> field; every theorem
  below holds for every such function, so for the interpreter's own, whatever it accepts
  as a number.
\<close>

type_synonym builtin_int = "string \<Rightarrow> int outcome"

subsection \<open>The account dictionary\<close>

text \<open>
  \<^verbatim>\<open>info._asdict()\<close> builds a dictionary from the fields in order: a later field of
  the same name would replace an earlier one.
\<close>

definition asdict :: "'v namedtuple \<Rightarrow> (string \<Rightarrow> 'v option)" where
  "asdict info = foldl (\<lambda>d (k, v). d(k \<mapsto> v)) Map.empty info"

text \<open>
  \<^verbatim>\<open>if info\<close>: \<^verbatim>\<open>None\<close> is false, and so is a tuple without elements.
\<close>

definition truthy :: "'v namedtuple option \<Rightarrow> bool" where
  "truthy info = (case info of None \<Rightarrow> False | Some t \<Rightarrow> t \<noteq> [])"

subsection \<open>The handler\<close>

text \<open>
  The body of the \<^verbatim>\<open>try\<close> block: the calls it makes and how it ends.
  \<^verbatim>\<open>int(req.login)\<close> is an argument of \<^verbatim>\<open>mt5.login\<close>, so it is evaluated first,
  inside the block.
\<close>

definition try_block ::
  "builtin_int \<Rightarrow> 'v MetaTrader5 \<Rightarrow> LoginReq \<Rightarrow> call list \<times> 'v result" where
  "try_block py_int mt5 req =
     (case py_int (login req) of
        Raises e \<Rightarrow> ([], Uncaught e)
      | Returns n \<Rightarrow>
          (case login_mt5 mt5 n (password req) (server req) of
             Raises e \<Rightarrow> ([Login n (password req) (server req)], Uncaught e)
           | Returns ok \<Rightarrow>
               if \<not> ok then
                 ([Login n (password req) (server req)],
                  Return [''ok'' \<mapsto> PyBool False, ''message'' \<mapsto> PyStr ''mt5.login failed''])
               else
                 (case account_info mt5 of
                    Raises e \<Rightarrow>
                      ([Login n (password req) (server req), Account_info], Uncaught e)
                  | Returns info \<Rightarrow>
                      ([Login n (password req) (server req), Account_info],
                       Return [''ok'' \<mapsto> PyBool True,
                               ''account_info'' \<mapsto>
                                 PyDict (if truthy info then asdict (the info)
                                         else Map.empty)]))))"

text \<open>
  \<^verbatim>\<open>finally: mt5.shutdown()\<close>: whatever the block did, \<^verbatim>\<open>shutdown\<close> is called
  next, and the block's return value or exception stands.
\<close>

definition finally_shutdown :: "call list \<times> 'v result \<Rightarrow> call list \<times> 'v result" where
  "finally_shutdown r = (fst r @ [Shutdown], snd r)"

text \<open>
  \<^verbatim>\<open>def mt5_login(req: LoginReq, x_api_key: str = Header(default=""))\<close>. The
  arguments: the process environment (which fixes \<^verbatim>\<open>API_KEY\<close>), the built-in
  \<^verbatim>\<open>int\<close>, what \<^verbatim>\<open>import MetaTrader5\<close> does (it gives the package or raises),
  the request body and the \<^verbatim>\<open>x-api-key\<close> header, if the request has one.
\<close>

definition mt5_login ::
  "(string \<Rightarrow> string option) \<Rightarrow> builtin_int \<Rightarrow> 'v MetaTrader5 outcome \<Rightarrow> LoginReq
     \<Rightarrow> string option \<Rightarrow> call list \<times> 'v result" where
  "mt5_login environ py_int import_MetaTrader5 req header =
     (let x_api_key = Header '''' header in
      if x_api_key \<noteq> API_KEY environ then ([], HTTPException 401 ''invalid api key'')
      else
        (case import_MetaTrader5 of
           Raises e \<Rightarrow>
             ([Import_MetaTrader5],
              Return [''ok'' \<mapsto> PyBool False,
                      ''message'' \<mapsto> PyStr (''MetaTrader5 not available: '' @ exn_str e)])
         | Returns mt5 \<Rightarrow>
             (case initialize mt5 of
                Raises e \<Rightarrow> ([Import_MetaTrader5, Initialize], Uncaught e)
              | Returns ini \<Rightarrow>
                  if \<not> ini then
                    ([Import_MetaTrader5, Initialize],
                     Return [''ok'' \<mapsto> PyBool False,
                             ''message'' \<mapsto> PyStr ''mt5.initialize failed''])
                  else
                    (let r = finally_shutdown (try_block py_int mt5 req)
                     in (Import_MetaTrader5 # Initialize # fst r, snd r)))))"

subsection \<open>A terminal and a request to run the handler on\<close>

text \<open>
  The values a terminal reports, for the examples: whole numbers and text. The example
  terminal initialises, knows one account (login 12345, password \<^verbatim>\<open>pw\<close>, on server
  \<^verbatim>\<open>Demo\<close>) and reports a balance and a currency for it.
\<close>

datatype field = Num int | Text string

definition demo_req :: LoginReq where
  "demo_req = \<lparr>server = ''Demo'', login = ''12345'', password = ''pw''\<rparr>"

definition demo_terminal :: "field MetaTrader5" where
  "demo_terminal =
     \<lparr>initialize = Returns True,
      login_mt5 = (\<lambda>n p s. Returns (n = 12345 \<and> p = ''pw'' \<and> s = ''Demo'')),
      account_info =
        Returns (Some [(''balance'', Num 1000), (''currency'', Text ''USD'')])\<rparr>"

text \<open>
  What \<^verbatim>\<open>import MetaTrader5\<close> raises where the package is not installed; the message
  has the module's name in single quotes.
\<close>

definition not_installed :: exn where
  "not_installed =
     Exn ''ModuleNotFoundError''
       (''No module named '' @ [CHR 0x27] @ ''MetaTrader5'' @ [CHR 0x27])"

text \<open>
  \<^verbatim>\<open>int\<close> at the two login ids of the examples: \<^verbatim>\<open>int("12345")\<close> is 12345 and
  \<^verbatim>\<open>int("abc")\<close> raises \<^verbatim>\<open>ValueError\<close> with the message
  \<^verbatim>\<open>invalid literal for int() with base 10: 'abc'\<close>. The examples apply it to no
  other text, and nothing is said about its value there.
\<close>

definition invalid_literal_abc :: exn where
  "invalid_literal_abc =
     Exn ''ValueError''
       (''invalid literal for int() with base 10: '' @ [CHR 0x27] @ ''abc'' @ [CHR 0x27])"

definition demo_int :: builtin_int where
  "demo_int s =
     (if s = ''12345'' then Returns 12345
      else if s = ''abc'' then Raises invalid_literal_abc
      else undefined)"

section \<open>Auxiliary facts\<close>

lemma demo_int_12345: "demo_int ''12345'' = Returns 12345"
  by (simp add: demo_int_def)

lemma demo_int_abc: "demo_int ''abc'' = Raises invalid_literal_abc"
  by (simp add: demo_int_def)

lemma key_change_me: "Header '''' (Some ''change-me'') = API_KEY Map.empty"
  by (simp add: Header_def API_KEY_def getenv_def)

lemma key_missing: "Header '''' None \<noteq> API_KEY Map.empty"
  by (simp add: Header_def API_KEY_def getenv_def)

text \<open>The dictionary of a named tuple, as a lookup in the list of its fields.\<close>

lemma asdict_map_of: "asdict info = map_of (rev info)"
proof -
  have "foldl (\<lambda>d (k, v). d(k \<mapsto> v)) m info = m ++ map_of (rev info)"
    for m :: "string \<Rightarrow> 'a option"
    by (induction info arbitrary: m) (auto simp: map_add_def fun_eq_iff split: option.splits)
  then show ?thesis by (simp add: asdict_def)
qed

lemma asdict_Nil: "asdict [] = Map.empty"
  by (simp add: asdict_def)

lemma dom_asdict: "dom (asdict info) = fst ` set info"
  by (simp add: asdict_map_of dom_map_of_conv_image_fst)

lemma asdict_SomeD: "asdict info k = Some v \<Longrightarrow> (k, v) \<in> set info"
  using map_of_SomeD [of "rev info" k v] by (simp add: asdict_map_of)

lemma asdict_distinct:
  "distinct (map fst info) \<Longrightarrow> asdict info k = Some v \<longleftrightarrow> (k, v) \<in> set info"
  by (simp add: asdict_map_of distinct_rev rev_map [symmetric] del: rev_map)

text \<open>The \<^verbatim>\<open>try\<close> block itself never shuts down and never rejects.\<close>

lemma try_block_no_shutdown: "Shutdown \<notin> set (fst (try_block py_int mt5 req))"
  by (simp add: try_block_def split: option.splits outcome.splits)

lemma try_block_not_HTTPException: "snd (try_block py_int mt5 req) \<noteq> HTTPException c d"
  by (simp add: try_block_def split: option.splits outcome.splits)

text \<open>The run of the handler when every call succeeds.\<close>

lemma mt5_login_success:
  assumes "Header '''' header = API_KEY environ"
    and "imp = Returns mt5"
    and "initialize mt5 = Returns True"
    and "py_int (login req) = Returns n"
    and "login_mt5 mt5 n (password req) (server req) = Returns True"
    and "account_info mt5 = Returns info"
  shows "mt5_login environ py_int imp req header =
          ([Import_MetaTrader5, Initialize, Login n (password req) (server req),
            Account_info, Shutdown],
           Return [''ok'' \<mapsto> PyBool True,
                   ''account_info'' \<mapsto>
                     PyDict (if truthy info then asdict (the info) else Map.empty)])"
  using assms by (simp add: mt5_login_def try_block_def finally_shutdown_def)

text \<open>Two dictionaries with different messages are different.\<close>

lemma message_neq:
  "m \<noteq> m' \<Longrightarrow>
   [''ok'' \<mapsto> PyBool False, ''message'' \<mapsto> PyStr m]
     \<noteq> ([''ok'' \<mapsto> PyBool False, ''message'' \<mapsto> PyStr m'] :: 'v body)"
  by (auto dest: fun_cong [where x = "''message''"])

section \<open>The claims\<close>

subsection \<open>C1: the terminal is shut down on every path after initialisation\<close>

text \<open>
  C1. For a request that passes the key check: when the package is imported and
  \<^verbatim>\<open>initialize()\<close> returns true, \<^verbatim>\<open>shutdown()\<close> is the last call the handler makes,
  it is made exactly once, and it follows the import and the initialisation, whatever
  happens in between (a login that fails, a login that succeeds, an exception raised by
  \<^verbatim>\<open>login\<close>, by \<^verbatim>\<open>account_info\<close> or by the conversion of the login id). When the
  import raises, and when \<^verbatim>\<open>initialize()\<close> does anything but return true,
  \<^verbatim>\<open>shutdown()\<close> is not called.
\<close>

theorem shutdown_after_initialize:
  assumes "Header '''' header = API_KEY environ"
  shows "(imp = Returns mt5 \<and> initialize mt5 = Returns True \<longrightarrow>
            last (fst (mt5_login environ py_int imp req header)) = Shutdown
          \<and> count_list (fst (mt5_login environ py_int imp req header)) Shutdown = 1
          \<and> take 2 (fst (mt5_login environ py_int imp req header)) = [Import_MetaTrader5, Initialize])
       \<and> ((\<exists>e. imp = Raises e) \<longrightarrow> Shutdown \<notin> set (fst (mt5_login environ py_int imp req header)))
       \<and> (imp = Returns mt5 \<and> initialize mt5 \<noteq> Returns True \<longrightarrow>
            Shutdown \<notin> set (fst (mt5_login environ py_int imp req header)))"
  using assms try_block_no_shutdown [of py_int mt5 req]
  by (auto simp: mt5_login_def finally_shutdown_def Let_def split: outcome.splits)

text \<open>
  The theorem at five runs with the right key: every call succeeds; the password is
  wrong; \<^verbatim>\<open>account_info()\<close> raises; the package is not installed;
  \<^verbatim>\<open>initialize()\<close> returns false.
\<close>

theorem shutdown_after_initialize_witness:
  "Header '''' (Some ''change-me'') = API_KEY Map.empty
   \<and> last (fst (mt5_login Map.empty demo_int (Returns demo_terminal) demo_req (Some ''change-me'')))
       = Shutdown
   \<and> count_list (fst (mt5_login Map.empty demo_int (Returns demo_terminal) demo_req (Some ''change-me'')))
        Shutdown = 1
   \<and> last (fst (mt5_login Map.empty demo_int (Returns demo_terminal) (demo_req\<lparr>password := ''no''\<rparr>)
                  (Some ''change-me''))) = Shutdown
   \<and> last (fst (mt5_login Map.empty demo_int
                  (Returns (demo_terminal\<lparr>account_info := Raises (Exn ''RuntimeError'' ''IPC'')\<rparr>))
                  demo_req (Some ''change-me''))) = Shutdown
   \<and> Shutdown \<notin> set (fst (mt5_login Map.empty demo_int (Raises not_installed :: field MetaTrader5 outcome)
                              demo_req (Some ''change-me'')))
   \<and> Shutdown \<notin> set (fst (mt5_login Map.empty demo_int
                              (Returns (demo_terminal\<lparr>initialize := Returns False\<rparr>))
                              demo_req (Some ''change-me'')))"
proof -
  note k = key_change_me
  have i: "initialize demo_terminal = Returns True"
    by (simp add: demo_terminal_def)
  have "last (fst (mt5_login Map.empty demo_int (Returns demo_terminal) demo_req (Some ''change-me'')))
          = Shutdown
        \<and> count_list
            (fst (mt5_login Map.empty demo_int (Returns demo_terminal) demo_req (Some ''change-me'')))
            Shutdown = 1"
    using shutdown_after_initialize
      [OF k, where ?imp = "Returns demo_terminal" and ?mt5.0 = demo_terminal
         and ?py_int = demo_int and ?req = demo_req] i
    by simp
  moreover
  have "last (fst (mt5_login Map.empty demo_int (Returns demo_terminal) (demo_req\<lparr>password := ''no''\<rparr>)
                     (Some ''change-me''))) = Shutdown"
    using shutdown_after_initialize
      [OF k, where ?imp = "Returns demo_terminal" and ?mt5.0 = demo_terminal
         and ?py_int = demo_int and ?req = "demo_req\<lparr>password := ''no''\<rparr>"] i
    by simp
  moreover
  have "last (fst (mt5_login Map.empty demo_int
                (Returns (demo_terminal\<lparr>account_info := Raises (Exn ''RuntimeError'' ''IPC'')\<rparr>))
                demo_req (Some ''change-me''))) = Shutdown"
    using shutdown_after_initialize
      [OF k, where imp =
           "Returns (demo_terminal\<lparr>account_info := Raises (Exn ''RuntimeError'' ''IPC'')\<rparr>)"
         and ?mt5.0 = "demo_terminal\<lparr>account_info := Raises (Exn ''RuntimeError'' ''IPC'')\<rparr>"
         and ?py_int = demo_int and ?req = demo_req] i
    by simp
  moreover
  have "Shutdown \<notin> set (fst (mt5_login Map.empty demo_int
                               (Raises not_installed :: field MetaTrader5 outcome)
                               demo_req (Some ''change-me'')))"
    using shutdown_after_initialize
      [OF k, where ?imp = "Raises not_installed :: field MetaTrader5 outcome"
         and ?py_int = demo_int and ?req = demo_req]
    by simp
  moreover
  have "Shutdown \<notin> set (fst (mt5_login Map.empty demo_int
                               (Returns (demo_terminal\<lparr>initialize := Returns False\<rparr>))
                               demo_req (Some ''change-me'')))"
    using shutdown_after_initialize
      [OF k, where ?imp = "Returns (demo_terminal\<lparr>initialize := Returns False\<rparr>)"
         and ?mt5.0 = "demo_terminal\<lparr>initialize := Returns False\<rparr>"
         and ?py_int = demo_int and ?req = demo_req]
    by simp
  ultimately show ?thesis
    using k by simp
qed

subsection \<open>C2: a wrong key is rejected and nothing else happens\<close>

text \<open>
  C2. When the \<^verbatim>\<open>x-api-key\<close> header (the empty string when the request has none)
  differs from \<^verbatim>\<open>API_KEY\<close>, the handler raises \<^verbatim>\<open>HTTPException\<close> with status 401
  and detail \<^verbatim>\<open>invalid api key\<close>. It returns no dictionary, hence no
  \<^verbatim>\<open>account_info\<close>, and its call list is empty: no import, no \<^verbatim>\<open>initialize\<close>, no
  \<^verbatim>\<open>login\<close>.
\<close>

theorem wrong_key_rejected:
  assumes "Header '''' header \<noteq> API_KEY environ"
  shows "mt5_login environ py_int imp req header = ([], HTTPException 401 ''invalid api key'')"
  using assms by (simp add: mt5_login_def)

text \<open>A request without the header, and one with a wrong key, at the default secret.\<close>

theorem wrong_key_rejected_witness:
  "Header '''' None \<noteq> API_KEY Map.empty
   \<and> mt5_login Map.empty demo_int (Returns demo_terminal) demo_req None
       = ([], HTTPException 401 ''invalid api key'')
   \<and> Header '''' (Some ''letmein'') \<noteq> API_KEY Map.empty
   \<and> mt5_login Map.empty demo_int (Returns demo_terminal) demo_req (Some ''letmein'')
       = ([], HTTPException 401 ''invalid api key'')"
proof -
  have w: "Header '''' (Some ''letmein'') \<noteq> API_KEY Map.empty"
    by (simp add: Header_def API_KEY_def getenv_def)
  show ?thesis
    using key_missing w
      wrong_key_rejected
        [OF key_missing, where ?py_int = demo_int and imp = "Returns demo_terminal"
           and ?req = demo_req]
      wrong_key_rejected
        [OF w, where ?py_int = demo_int and imp = "Returns demo_terminal" and ?req = demo_req]
    by simp
qed

subsection \<open>C3: \<^verbatim>\<open>initialize()\<close> returns false\<close>

text \<open>
  C3, with the message the handler has. With the right key and the package imported,
  when \<^verbatim>\<open>initialize()\<close> returns false the handler returns exactly
  \<^verbatim>\<open>{"ok": False, "message": "mt5.initialize failed"}\<close>, and the import and
  \<^verbatim>\<open>initialize\<close> are its only calls: neither \<^verbatim>\<open>login\<close> nor \<^verbatim>\<open>account_info\<close>
  is called.
\<close>

theorem initialize_failed:
  assumes "Header '''' header = API_KEY environ"
    and "imp = Returns mt5"
    and "initialize mt5 = Returns False"
  shows "mt5_login environ py_int imp req header =
           ([Import_MetaTrader5, Initialize],
            Return [''ok'' \<mapsto> PyBool False,
                    ''message'' \<mapsto> PyStr ''mt5.initialize failed''])"
  using assms by (simp add: mt5_login_def)

theorem initialize_failed_witness:
  "Header '''' (Some ''change-me'') = API_KEY Map.empty
   \<and> initialize (demo_terminal\<lparr>initialize := Returns False\<rparr>) = Returns False
   \<and> mt5_login Map.empty demo_int (Returns (demo_terminal\<lparr>initialize := Returns False\<rparr>)) demo_req
        (Some ''change-me'') =
       ([Import_MetaTrader5, Initialize],
        Return [''ok'' \<mapsto> PyBool False, ''message'' \<mapsto> PyStr ''mt5.initialize failed''])"
proof -
  have i: "initialize (demo_terminal\<lparr>initialize := Returns False\<rparr>) = Returns False"
    by simp
  show ?thesis
    using key_change_me i
      initialize_failed [OF key_change_me refl i, where ?py_int = demo_int and ?req = demo_req]
    by simp
qed

text \<open>
  The message is not the literal \<^verbatim>\<open>initialize failed\<close>: on the example terminal with
  \<^verbatim>\<open>initialize()\<close> returning false, the handler does not return
  \<^verbatim>\<open>{"ok": False, "message": "initialize failed"}\<close>.
\<close>

theorem initialize_failed_literal_counterexample:
  "Header '''' (Some ''change-me'') = API_KEY Map.empty
   \<and> initialize (demo_terminal\<lparr>initialize := Returns False\<rparr>) = Returns False
   \<and> snd (mt5_login Map.empty demo_int (Returns (demo_terminal\<lparr>initialize := Returns False\<rparr>)) demo_req
            (Some ''change-me''))
       \<noteq> Return [''ok'' \<mapsto> PyBool False, ''message'' \<mapsto> PyStr ''initialize failed'']"
proof -
  have "[''ok'' \<mapsto> PyBool False, ''message'' \<mapsto> PyStr ''mt5.initialize failed'']
        \<noteq> ([''ok'' \<mapsto> PyBool False, ''message'' \<mapsto> PyStr ''initialize failed'']
            :: field body)"
    by (rule message_neq) simp
  then show ?thesis
    by (simp add: mt5_login_def key_change_me)
qed

subsection \<open>C4: \<^verbatim>\<open>login()\<close> returns false\<close>

text \<open>
  C4, with the message the handler has. With the right key, the package imported and
  \<^verbatim>\<open>initialize()\<close> true, when \<^verbatim>\<open>login()\<close> (called with \<^verbatim>\<open>int(req.login)\<close>, the
  password and the server) returns false, the handler returns exactly
  \<^verbatim>\<open>{"ok": False, "message": "mt5.login failed"}\<close> and \<^verbatim>\<open>shutdown()\<close> is called
  exactly once, as the last call.
\<close>

theorem login_failed:
  assumes "Header '''' header = API_KEY environ"
    and "imp = Returns mt5"
    and "initialize mt5 = Returns True"
    and "py_int (login req) = Returns n"
    and "login_mt5 mt5 n (password req) (server req) = Returns False"
  shows "mt5_login environ py_int imp req header =
           ([Import_MetaTrader5, Initialize, Login n (password req) (server req), Shutdown],
            Return [''ok'' \<mapsto> PyBool False, ''message'' \<mapsto> PyStr ''mt5.login failed''])
         \<and> count_list (fst (mt5_login environ py_int imp req header)) Shutdown = 1"
  using assms by (simp add: mt5_login_def try_block_def finally_shutdown_def)

theorem login_failed_witness:
  "Header '''' (Some ''change-me'') = API_KEY Map.empty
   \<and> initialize demo_terminal = Returns True
   \<and> demo_int (login (demo_req\<lparr>password := ''no''\<rparr>)) = Returns 12345
   \<and> login_mt5 demo_terminal 12345 ''no'' ''Demo'' = Returns False
   \<and> mt5_login Map.empty demo_int (Returns demo_terminal) (demo_req\<lparr>password := ''no''\<rparr>)
        (Some ''change-me'') =
       ([Import_MetaTrader5, Initialize, Login 12345 ''no'' ''Demo'', Shutdown],
        Return [''ok'' \<mapsto> PyBool False, ''message'' \<mapsto> PyStr ''mt5.login failed''])
   \<and> count_list (fst (mt5_login Map.empty demo_int (Returns demo_terminal)
                         (demo_req\<lparr>password := ''no''\<rparr>) (Some ''change-me''))) Shutdown = 1"
proof -
  have i: "initialize demo_terminal = Returns True"
    by (simp add: demo_terminal_def)
  have p: "demo_int (login (demo_req\<lparr>password := ''no''\<rparr>)) = Returns 12345"
    by (simp add: demo_req_def demo_int_12345)
  have l: "login_mt5 demo_terminal 12345 (password (demo_req\<lparr>password := ''no''\<rparr>))
             (server (demo_req\<lparr>password := ''no''\<rparr>)) = Returns False"
    by (simp add: demo_terminal_def demo_req_def)
  have l': "login_mt5 demo_terminal 12345 ''no'' ''Demo'' = Returns False"
    by (simp add: demo_terminal_def)
  have s: "server demo_req = ''Demo''"
    by (simp add: demo_req_def)
  show ?thesis
    using key_change_me i p l' s login_failed
      [where ?py_int = demo_int and ?req = "demo_req\<lparr>password := ''no''\<rparr>",
       OF key_change_me refl i p l]
    by simp
qed

text \<open>
  The message is not the literal \<^verbatim>\<open>login failed\<close>: with a wrong password on the
  example terminal, the handler does not return
  \<^verbatim>\<open>{"ok": False, "message": "login failed"}\<close>.
\<close>

theorem login_failed_literal_counterexample:
  "Header '''' (Some ''change-me'') = API_KEY Map.empty
   \<and> initialize demo_terminal = Returns True
   \<and> login_mt5 demo_terminal 12345 ''no'' ''Demo'' = Returns False
   \<and> snd (mt5_login Map.empty demo_int (Returns demo_terminal) (demo_req\<lparr>password := ''no''\<rparr>)
            (Some ''change-me''))
       \<noteq> Return [''ok'' \<mapsto> PyBool False, ''message'' \<mapsto> PyStr ''login failed'']"
proof -
  have "[''ok'' \<mapsto> PyBool False, ''message'' \<mapsto> PyStr ''mt5.login failed'']
        \<noteq> ([''ok'' \<mapsto> PyBool False, ''message'' \<mapsto> PyStr ''login failed''] :: field body)"
    by (rule message_neq) simp
  then show ?thesis
    by (simp add: mt5_login_def try_block_def finally_shutdown_def key_change_me
        demo_terminal_def demo_req_def demo_int_12345)
qed

subsection \<open>C5: no account record\<close>

text \<open>
  C5. With the right key, when \<^verbatim>\<open>login()\<close> returns true and \<^verbatim>\<open>account_info()\<close>
  returns \<^verbatim>\<open>None\<close>, the handler returns \<^verbatim>\<open>{"ok": True, "account_info": {}}\<close>.
\<close>

theorem no_account_record:
  assumes "Header '''' header = API_KEY environ"
    and "imp = Returns mt5"
    and "initialize mt5 = Returns True"
    and "py_int (login req) = Returns n"
    and "login_mt5 mt5 n (password req) (server req) = Returns True"
    and "account_info mt5 = Returns None"
  shows "snd (mt5_login environ py_int imp req header) =
           Return [''ok'' \<mapsto> PyBool True, ''account_info'' \<mapsto> PyDict Map.empty]"
  using assms by (simp add: mt5_login_def try_block_def finally_shutdown_def truthy_def)

theorem no_account_record_witness:
  "Header '''' (Some ''change-me'') = API_KEY Map.empty
   \<and> initialize (demo_terminal\<lparr>account_info := Returns None\<rparr>) = Returns True
   \<and> demo_int (login demo_req) = Returns 12345
   \<and> login_mt5 (demo_terminal\<lparr>account_info := Returns None\<rparr>) 12345 ''pw'' ''Demo''
       = Returns True
   \<and> account_info (demo_terminal\<lparr>account_info := Returns None\<rparr>) = Returns None
   \<and> snd (mt5_login Map.empty demo_int (Returns (demo_terminal\<lparr>account_info := Returns None\<rparr>))
            demo_req (Some ''change-me'')) =
       Return [''ok'' \<mapsto> PyBool True, ''account_info'' \<mapsto> PyDict Map.empty]"
proof -
  have i: "initialize (demo_terminal\<lparr>account_info := Returns None\<rparr>) = Returns True"
    by (simp add: demo_terminal_def)
  have p: "demo_int (login demo_req) = Returns 12345"
    by (simp add: demo_req_def demo_int_12345)
  have l: "login_mt5 (demo_terminal\<lparr>account_info := Returns None\<rparr>) 12345
             (password demo_req) (server demo_req) = Returns True"
    by (simp add: demo_terminal_def demo_req_def)
  have l': "login_mt5 (demo_terminal\<lparr>account_info := Returns None\<rparr>) 12345 ''pw'' ''Demo''
              = Returns True"
    by (simp add: demo_terminal_def)
  have a: "account_info (demo_terminal\<lparr>account_info := Returns None\<rparr>) = Returns None"
    by simp
  show ?thesis
    using key_change_me i p l' a no_account_record
      [where ?py_int = demo_int and ?req = demo_req, OF key_change_me refl i p l a]
    by simp
qed

subsection \<open>C6: the account record is returned field by field\<close>

text \<open>
  C6. With the right key, when \<^verbatim>\<open>login()\<close> returns true and \<^verbatim>\<open>account_info()\<close>
  returns a record, the handler returns \<^verbatim>\<open>{"ok": True, "account_info": d}\<close> where
  \<open>d\<close> is the record as a dictionary: its keys are exactly the record's field names,
  every entry of \<open>d\<close> is a field of the record with its value, and (the field names of
  a named tuple being distinct) every field is an entry of \<open>d\<close>. \<^verbatim>\<open>shutdown()\<close> is
  called exactly once.
\<close>

theorem account_record_returned:
  assumes "Header '''' header = API_KEY environ"
    and "imp = Returns mt5"
    and "initialize mt5 = Returns True"
    and "py_int (login req) = Returns n"
    and "login_mt5 mt5 n (password req) (server req) = Returns True"
    and "account_info mt5 = Returns (Some info)"
  shows "snd (mt5_login environ py_int imp req header) =
           Return [''ok'' \<mapsto> PyBool True, ''account_info'' \<mapsto> PyDict (asdict info)]
       \<and> dom (asdict info) = fst ` set info
       \<and> (\<forall>k v. asdict info k = Some v \<longrightarrow> (k, v) \<in> set info)
       \<and> (distinct (map fst info) \<longrightarrow> (\<forall>(k, v) \<in> set info. asdict info k = Some v))
       \<and> count_list (fst (mt5_login environ py_int imp req header)) Shutdown = 1"
proof (intro conjI)
  note run = mt5_login_success [where ?py_int = py_int and ?req = req, OF assms]
  show "snd (mt5_login environ py_int imp req header) =
          Return [''ok'' \<mapsto> PyBool True, ''account_info'' \<mapsto> PyDict (asdict info)]"
    unfolding run by (cases info) (simp_all add: truthy_def asdict_Nil)
  show "count_list (fst (mt5_login environ py_int imp req header)) Shutdown = 1"
    unfolding run by simp
  show "dom (asdict info) = fst ` set info"
    by (rule dom_asdict)
  show "\<forall>k v. asdict info k = Some v \<longrightarrow> (k, v) \<in> set info"
    by (blast dest: asdict_SomeD)
  show "distinct (map fst info) \<longrightarrow> (\<forall>(k, v) \<in> set info. asdict info k = Some v)"
    by (auto simp: asdict_distinct)
qed

text \<open>
  The spec's scenario: the request \<^verbatim>\<open>{server: "Demo", login: "12345", password: "pw"}\<close>
  with the right key, on a terminal that reports \<^verbatim>\<open>{balance: 1000, currency: "USD"}\<close>.
\<close>

theorem account_record_returned_witness:
  "Header '''' (Some ''change-me'') = API_KEY Map.empty
   \<and> initialize demo_terminal = Returns True
   \<and> demo_int (login demo_req) = Returns 12345
   \<and> login_mt5 demo_terminal 12345 (password demo_req) (server demo_req) = Returns True
   \<and> account_info demo_terminal =
       Returns (Some [(''balance'', Num 1000), (''currency'', Text ''USD'')])
   \<and> snd (mt5_login Map.empty demo_int (Returns demo_terminal) demo_req (Some ''change-me'')) =
       Return [''ok'' \<mapsto> PyBool True,
               ''account_info'' \<mapsto>
                 PyDict [''balance'' \<mapsto> Num 1000, ''currency'' \<mapsto> Text ''USD'']]
   \<and> count_list (fst (mt5_login Map.empty demo_int (Returns demo_terminal) demo_req (Some ''change-me'')))
        Shutdown = 1"
proof -
  have i: "initialize demo_terminal = Returns True"
    by (simp add: demo_terminal_def)
  have p: "demo_int (login demo_req) = Returns 12345"
    by (simp add: demo_req_def demo_int_12345)
  have l: "login_mt5 demo_terminal 12345 (password demo_req) (server demo_req) = Returns True"
    by (simp add: demo_terminal_def demo_req_def)
  have a: "account_info demo_terminal =
             Returns (Some [(''balance'', Num 1000), (''currency'', Text ''USD'')])"
    by (simp add: demo_terminal_def)
  show ?thesis
    using key_change_me i p l a account_record_returned
      [where ?py_int = demo_int and ?req = demo_req, OF key_change_me refl i p l a]
    by (simp add: asdict_def)
qed

subsection \<open>C7: a login id that is not a number\<close>

text \<open>
  C7, as the handler does it. \<^verbatim>\<open>int(req.login)\<close> stands inside the \<^verbatim>\<open>try\<close> block,
  after \<^verbatim>\<open>initialize()\<close>. With the right key, the package imported and
  \<^verbatim>\<open>initialize()\<close> true, a login id that is not a number (one on which \<^verbatim>\<open>int\<close>
  raises, with an exception \<open>e\<close>) makes the handler end with that exception uncaught;
  the conversion comes after the initialisation, \<^verbatim>\<open>login\<close> and \<^verbatim>\<open>account_info\<close>
  are not called, and \<^verbatim>\<open>shutdown()\<close> is called, once, before the exception leaves
  the handler.
\<close>

theorem non_numeric_login:
  assumes "Header '''' header = API_KEY environ"
    and "imp = Returns mt5"
    and "initialize mt5 = Returns True"
    and "py_int (login req) = Raises e"
  shows "mt5_login environ py_int imp req header =
           ([Import_MetaTrader5, Initialize, Shutdown], Uncaught e)"
  using assms by (simp add: mt5_login_def try_block_def finally_shutdown_def)

theorem non_numeric_login_witness:
  "Header '''' (Some ''change-me'') = API_KEY Map.empty
   \<and> initialize demo_terminal = Returns True
   \<and> demo_int (login (demo_req\<lparr>login := ''abc''\<rparr>)) = Raises invalid_literal_abc
   \<and> mt5_login Map.empty demo_int (Returns demo_terminal) (demo_req\<lparr>login := ''abc''\<rparr>)
        (Some ''change-me'') =
       ([Import_MetaTrader5, Initialize, Shutdown], Uncaught invalid_literal_abc)"
proof -
  have i: "initialize demo_terminal = Returns True"
    by (simp add: demo_terminal_def)
  have p: "demo_int (login (demo_req\<lparr>login := ''abc''\<rparr>)) = Raises invalid_literal_abc"
    by (simp add: demo_int_abc)
  show ?thesis
    using key_change_me i p non_numeric_login
      [where ?py_int = demo_int and ?req = "demo_req\<lparr>login := ''abc''\<rparr>",
       OF key_change_me refl i p]
    by simp
qed

text \<open>
  The claim as the spec words it puts the conversion before the initialisation and
  outside the release. On the example terminal with the login id \<^verbatim>\<open>abc\<close> the
  conversion fails, and yet \<^verbatim>\<open>initialize\<close> has been called and \<^verbatim>\<open>shutdown\<close> is
  called.
\<close>

theorem non_numeric_login_release_counterexample:
  "demo_int (login (demo_req\<lparr>login := ''abc''\<rparr>)) = Raises invalid_literal_abc
   \<and> snd (mt5_login Map.empty demo_int (Returns demo_terminal) (demo_req\<lparr>login := ''abc''\<rparr>)
            (Some ''change-me'')) = Uncaught invalid_literal_abc
   \<and> Initialize \<in> set (fst (mt5_login Map.empty demo_int (Returns demo_terminal)
                              (demo_req\<lparr>login := ''abc''\<rparr>) (Some ''change-me'')))
   \<and> Shutdown \<in> set (fst (mt5_login Map.empty demo_int (Returns demo_terminal)
                            (demo_req\<lparr>login := ''abc''\<rparr>) (Some ''change-me'')))"
  by (simp add: mt5_login_def try_block_def finally_shutdown_def key_change_me
      demo_terminal_def demo_int_abc)

subsection \<open>C8: the package cannot be imported\<close>

text \<open>
  C8. With the right key, when \<^verbatim>\<open>import MetaTrader5\<close> raises an exception \<open>e\<close>, the
  handler returns (status 200, not a rejection) the dictionary
  \<^verbatim>\<open>{"ok": False, "message": "MetaTrader5 not available: " + str(e)}\<close>, and makes no
  call on the package.
\<close>

theorem binding_unavailable:
  assumes "Header '''' header = API_KEY environ"
    and "imp = Raises e"
  shows "mt5_login environ py_int imp req header =
           ([Import_MetaTrader5],
            Return [''ok'' \<mapsto> PyBool False,
                    ''message'' \<mapsto> PyStr (''MetaTrader5 not available: '' @ exn_str e)])"
  using assms by (simp add: mt5_login_def)

theorem binding_unavailable_witness:
  "Header '''' (Some ''change-me'') = API_KEY Map.empty
   \<and> mt5_login Map.empty demo_int (Raises not_installed :: field MetaTrader5 outcome) demo_req
        (Some ''change-me'') =
       ([Import_MetaTrader5],
        Return [''ok'' \<mapsto> PyBool False,
                ''message'' \<mapsto>
                  PyStr (''MetaTrader5 not available: No module named ''
                         @ [CHR 0x27] @ ''MetaTrader5'' @ [CHR 0x27])])"
  using key_change_me
    binding_unavailable
      [OF key_change_me refl, where ?e = not_installed and ?py_int = demo_int
         and ?req = demo_req and ?'a = field]
  by (simp add: not_installed_def)

subsection \<open>C9: an empty secret lets a request without header through\<close>

text \<open>
  C9. When \<^verbatim>\<open>MT5_WORKER_API_KEY\<close> is set to the empty string, a request without the
  \<^verbatim>\<open>x-api-key\<close> header passes the key check: the header defaults to the empty
  string, which equals the secret, so the handler does not raise the 401 and goes on to
  import the package, whatever the request and the package are.
\<close>

theorem empty_secret_accepts_missing_header:
  "Header '''' None = API_KEY [''MT5_WORKER_API_KEY'' \<mapsto> '''']
   \<and> snd (mt5_login [''MT5_WORKER_API_KEY'' \<mapsto> ''''] py_int imp req None)
        \<noteq> HTTPException 401 ''invalid api key''
   \<and> hd (fst (mt5_login [''MT5_WORKER_API_KEY'' \<mapsto> ''''] py_int imp req None)) = Import_MetaTrader5"
proof -
  have k: "Header '''' None = API_KEY [''MT5_WORKER_API_KEY'' \<mapsto> '''']"
    by (simp add: Header_def API_KEY_def getenv_def)
  then show ?thesis
    by (simp add: mt5_login_def finally_shutdown_def try_block_not_HTTPException
        split: outcome.splits)
qed

subsection \<open>C10: the shape of a returned dictionary\<close>

text \<open>
  C10. Every dictionary the handler returns has the key \<^verbatim>\<open>ok\<close>. Where \<^verbatim>\<open>ok\<close> is
  true it has the key \<^verbatim>\<open>account_info\<close> and no \<^verbatim>\<open>message\<close>; where \<^verbatim>\<open>ok\<close> is
  false it has the key \<^verbatim>\<open>message\<close> and no \<^verbatim>\<open>account_info\<close>.
\<close>

theorem body_shape:
  assumes "snd (mt5_login environ py_int imp req header) = Return b"
  shows "(b ''ok'' = Some (PyBool True) \<and> ''account_info'' \<in> dom b \<and> ''message'' \<notin> dom b)
       \<or> (b ''ok'' = Some (PyBool False) \<and> ''message'' \<in> dom b \<and> ''account_info'' \<notin> dom b)"
  using assms
  by (auto simp: mt5_login_def try_block_def finally_shutdown_def Let_def
      split: if_splits outcome.splits option.splits)

text \<open>The theorem at a run that returns a dictionary: a wrong password.\<close>

theorem body_shape_witness:
  "snd (mt5_login Map.empty demo_int (Returns demo_terminal) (demo_req\<lparr>password := ''no''\<rparr>)
         (Some ''change-me'')) =
     Return [''ok'' \<mapsto> PyBool False, ''message'' \<mapsto> PyStr ''mt5.login failed'']
   \<and> [''ok'' \<mapsto> PyBool False, ''message'' \<mapsto> PyStr ''mt5.login failed''] ''ok''
       = Some (PyBool False :: field pyval)
   \<and> ''message''
       \<in> dom ([''ok'' \<mapsto> PyBool False, ''message'' \<mapsto> PyStr ''mt5.login failed''] :: field body)
   \<and> ''account_info''
       \<notin> dom ([''ok'' \<mapsto> PyBool False, ''message'' \<mapsto> PyStr ''mt5.login failed''] :: field body)"
proof -
  have r: "snd (mt5_login Map.empty demo_int (Returns demo_terminal) (demo_req\<lparr>password := ''no''\<rparr>)
                 (Some ''change-me'')) =
             Return [''ok'' \<mapsto> PyBool False, ''message'' \<mapsto> PyStr ''mt5.login failed'']"
    by (simp add: mt5_login_def try_block_def finally_shutdown_def key_change_me
        demo_terminal_def demo_req_def demo_int_12345)
  show ?thesis
    using r body_shape [OF r] by simp
qed

end
